theory Spec2Isabelle
  imports Main "HOL-Library.Word"
begin

section \<open>Data model\<close>

text \<open>
  Package \<open>mqtt\<close> of the cloud connector: the handlers for inbound MQTT frames and the
  builders of outbound control messages. Every handler is modelled as a function that
  returns the sequence of effects it performs (log lines, collaborator calls, MQTT
  publishes, Kafka writes) together with its outcome.
\<close>

type_synonym clientID = string
type_synonym accountID = string
type_synonym identity = string
type_synonym bytes = string
type_synonym uuid = string
type_synonym timestamp = nat

text \<open>
  Go errors. \<open>errors.Is\<close> walks the chain of wrapped errors, so an error is either the
  sentinel \<open>context.Canceled\<close>, a plain message, or a wrapper around another error.
\<close>

datatype error = ContextCanceled | ErrorString string | Wrapped string error

fun errors_Is_Canceled :: "error \<Rightarrow> bool" where
  "errors_Is_Canceled ContextCanceled = True"
| "errors_Is_Canceled (ErrorString s) = False"
| "errors_Is_Canceled (Wrapped s e) = errors_Is_Canceled e"

text \<open>
  What \<open>json.Unmarshal\<close> stores in an \<open>interface{}\<close>: \<open>nil\<close>, \<open>bool\<close>, \<open>float64\<close>
  (the handlers never look at a number, so its value is kept as an integer), \<open>string\<close>,
  \<open>[]interface{}\<close> and \<open>map[string]interface{}\<close>. A map is the list of its entries and
  is read with \<open>map_of\<close>.
\<close>

datatype json =
    JNull
  | JBool bool
  | JNumber int
  | JString string
  | JArray "json list"
  | JObject "(string \<times> json) list"

text \<open>A function either returns or panics (a failed type assertion).\<close>

datatype 'a outcome = Panic | Return 'a

text \<open>The type assertions \<open>x.(map[string]interface{})\<close> and \<open>x.(string)\<close>.\<close>

fun assert_map :: "json \<Rightarrow> (string \<times> json) list outcome" where
  "assert_map (JObject m) = Return m"
| "assert_map _ = Panic"

fun assert_string :: "json \<Rightarrow> string outcome" where
  "assert_string (JString s) = Return s"
| "assert_string _ = Panic"

text \<open>\<open>m[k]\<close> in its one-result form: the zero value \<open>nil\<close> when the key is absent.\<close>

definition index_map :: "(string \<times> json) list \<Rightarrow> string \<Rightarrow> json" where
  "index_map m k = (case map_of m k of None \<Rightarrow> JNull | Some v \<Rightarrow> v)"

text \<open>
  Modelled from the spec: the declarations of \<open>ControlMessage\<close> and
  \<open>CommandMessageContent\<close> are not among the source files; their fields are those of the
  control envelope and of the command content of the data model, which are the fields the
  code reads and writes. \<open>Content\<close> is an \<open>interface{}\<close>: a decoded JSON value on an
  inbound message, a \<open>*CommandMessageContent\<close> on an outbound one. The arguments of a
  command are the \<open>map[string]int\<close> that \<open>buildReconnectMessage\<close> builds.
\<close>

record 'c ControlMessage =
  MessageType :: string
  MessageID :: string
  Version :: int
  Sent :: timestamp
  Content :: 'c

record CommandMessageContent =
  Command :: string
  Arguments :: "(string \<times> int) list"

text \<open>
  Modelled from the spec: \<open>domain.RhcClient\<close> is declared outside the source files; its
  fields are the four that \<open>handleOnlineMessage\<close> sets (the registered client of the data
  model). An absent key leaves its field at \<open>nil\<close>.
\<close>

record RhcClient =
  ClientID :: clientID
  Account :: accountID
  Dispatchers :: json
  CanonicalFacts :: json

text \<open>
  Modelled from the spec: of the configuration, the two options that the handshake reads,
  the QoS of control publishes (a byte) and the reconnect delay after an invalid handshake
  (seconds).
\<close>

record Config =
  MqttControlPublishQoS :: "8 word"
  InvalidHandshakeReconnectDelay :: int

text \<open>
  An MQTT message as the handlers see it (\<open>Topic()\<close>, \<open>MessageID()\<close>, \<open>Payload()\<close>) and
  a Kafka record with its headers. Bytes and strings are both lists of 8-bit characters, so
  the conversion \<open>[]byte(s)\<close> is the identity.
\<close>

record Message =
  message_Topic :: string
  message_MessageID :: "16 word"
  message_Payload :: bytes

record kafka_Header =
  header_Key :: string
  header_Value :: bytes

record kafka_Message =
  Headers :: "kafka_Header list"
  Value :: bytes

text \<open>
  The kind of topic that the topic verifier reports; the handlers compare it with
  \<open>ControlTopicType\<close> and \<open>DataTopicType\<close> only.
\<close>

datatype topicType = ControlTopicType | DataTopicType | OtherTopicType nat

datatype level = TraceLevel | DebugLevel | InfoLevel | ErrorLevel | FatalLevel

text \<open>
  The effects a handler can have, in the order it performs them. \<open>Go\<close> is the start of
  a goroutine, with the effects that goroutine has when it runs.
\<close>

datatype event =
    Log level string
  | MetricInc string
  | Call_MapClientIdToAccountId clientID
  | Call_Register RhcClient
  | Call_Unregister clientID
  | Call_RecordConnectedClient identity RhcClient
  | Call_RegisterWithSources identity accountID clientID string string string string
  | Publish string "8 word" bool bytes
  | Call_WriteMessages kafka_Message
  | Exit int
  | Go "event list"

text \<open>
  What the handlers are given: the topic codec (\<open>TopicVerifier\<close>, \<open>TopicBuilder\<close>, whose
  code is not among the source files), the JSON codec, the random source and the clock,
  and the results the collaborators give back. The recorder is called as
  \<open>handleOnlineMessage\<close> calls it, with the identity and the client. \<open>Register\<close> returns
  a pair of which the handler keeps the error only, and the result of \<open>Unregister\<close> is
  not looked at. Each collaborator is called at most once while one frame is handled, so
  its answer is a function of its arguments. \<open>token_Error\<close> is what the token of a
  publish reports once the broker has answered.
\<close>

record env =
  VerifyIncomingTopic :: "string \<Rightarrow> error + topicType \<times> clientID"
  BuildOutgoingControlTopic :: "clientID \<Rightarrow> string"
  json_Unmarshal :: "string \<Rightarrow> error + json ControlMessage"
  json_Marshal :: "CommandMessageContent ControlMessage \<Rightarrow> error + bytes"
  uuid_NewRandom :: "error + uuid"
  time_Now :: timestamp
  MapClientIdToAccountId :: "clientID \<Rightarrow> error + identity \<times> accountID"
  Register :: "RhcClient \<Rightarrow> error option"
  RecordConnectedClient :: "identity \<Rightarrow> RhcClient \<Rightarrow> error option"
  RegisterWithSources ::
    "identity \<Rightarrow> accountID \<Rightarrow> clientID \<Rightarrow> string \<Rightarrow> string \<Rightarrow> string \<Rightarrow> string \<Rightarrow> error option"
  WriteMessages :: "kafka_Message \<Rightarrow> error option"
  token_Error :: "string \<Rightarrow> bytes \<Rightarrow> error option"

section \<open>Constants\<close>

definition canonicalFactsKey :: string where "canonicalFactsKey = ''canonical_facts''"
definition dispatchersKey :: string where "dispatchersKey = ''dispatchers''"
definition catalogDispatcherKey :: string where "catalogDispatcherKey = ''catalog''"
definition catalogApplicationType :: string where "catalogApplicationType = ''ApplicationType''"
definition catalogSourceName :: string where "catalogSourceName = ''SrcName''"
definition catalogSourceRef :: string where "catalogSourceRef = ''SourceRef''"
definition catalogSourceType :: string where "catalogSourceType = ''SrcType''"
definition playbookWorkerDispatcherKey :: string where
  "playbookWorkerDispatcherKey = ''rhc-worker-playbook''"

section \<open>Building and sending outbound control messages\<close>

definition buildControlMessage ::
  "env \<Rightarrow> CommandMessageContent \<Rightarrow> error + uuid \<times> CommandMessageContent ControlMessage" where
  "buildControlMessage e content =
     (case uuid_NewRandom e of
        Inl err \<Rightarrow> Inl err
      | Inr messageID \<Rightarrow>
          Inr (messageID,
               \<lparr>MessageType = ''control'', MessageID = messageID, Version = 1,
                Sent = time_Now e, Content = content\<rparr>))"

definition buildReconnectMessage ::
  "env \<Rightarrow> int \<Rightarrow> error + uuid \<times> CommandMessageContent ControlMessage" where
  "buildReconnectMessage e delay =
     buildControlMessage e \<lparr>Command = ''reconnect'', Arguments = [(''delay'', delay)]\<rparr>"

text \<open>
  \<open>sendMessage\<close> publishes with \<open>retained = false\<close> and returns \<open>nil\<close> once the publish
  is handed to the client; the acknowledgement is awaited by a goroutine, which logs at
  error level when the token reports an error.
\<close>

definition sendMessage ::
  "env \<Rightarrow> string \<Rightarrow> 8 word \<Rightarrow> CommandMessageContent ControlMessage \<Rightarrow> event list \<times> error option" where
  "sendMessage e topic qos message =
     (case json_Marshal e message of
        Inl err \<Rightarrow> ([], Some err)
      | Inr messageBytes \<Rightarrow>
          ([Log DebugLevel ''Sending message to connected client on topic: '',
            Publish topic qos False messageBytes,
            Go (case token_Error e topic messageBytes of
                  None \<Rightarrow> []
                | Some err \<Rightarrow> [Log ErrorLevel ''Error sending a message to MQTT broker''])],
           None))"

text \<open>
  The handlers call \<open>sendReconnectMessageToClient\<close> with a reason before the delay. The
  function as it is defined has no parameter for the reason and builds the message from
  the delay alone, so the reason reaches no effect. The error it returns is dropped by
  its callers.
\<close>

definition sendReconnectMessageToClient ::
  "env \<Rightarrow> 8 word \<Rightarrow> clientID \<Rightarrow> string \<Rightarrow> int \<Rightarrow> event list \<times> error option" where
  "sendReconnectMessageToClient e qos clientID reason delay =
     (case buildReconnectMessage e delay of
        Inl err \<Rightarrow> ([], Some err)
      | Inr (messageID, message) \<Rightarrow>
          (let topic = BuildOutgoingControlTopic e clientID;
               sent = sendMessage e topic qos message
           in (Log DebugLevel ''Sending reconnect message to connected client'' # fst sent,
               snd sent)))"

section \<open>The online handshake\<close>

definition doesHostHaveCanonicalFacts :: "(string \<times> json) list \<Rightarrow> bool" where
  "doesHostHaveCanonicalFacts handshakePayload =
     (map_of handshakePayload canonicalFactsKey \<noteq> None)"

definition doesHostHavePlaybookWorker :: "(string \<times> json) list \<Rightarrow> bool outcome" where
  "doesHostHavePlaybookWorker handshakePayload =
     (case map_of handshakePayload dispatchersKey of
        None \<Rightarrow> Return False
      | Some dispatchers \<Rightarrow>
          (case assert_map dispatchers of
             Panic \<Rightarrow> Panic
           | Return dispatchersMap \<Rightarrow>
               Return (map_of dispatchersMap playbookWorkerDispatcherKey \<noteq> None)))"

text \<open>\<open>&&\<close> evaluates its right operand only when the left one is true.\<close>

definition shouldHostBeRegisteredWithInventory :: "(string \<times> json) list \<Rightarrow> bool outcome" where
  "shouldHostBeRegisteredWithInventory handshakePayload =
     (if doesHostHaveCanonicalFacts handshakePayload
      then doesHostHavePlaybookWorker handshakePayload
      else Return False)"

definition processDispatchers ::
  "env \<Rightarrow> identity \<Rightarrow> accountID \<Rightarrow> clientID \<Rightarrow> (string \<times> json) list \<Rightarrow> event list \<times> unit outcome" where
  "processDispatchers e ident account clientId handshakePayload =
     (case map_of handshakePayload dispatchersKey of
        None \<Rightarrow> ([Log DebugLevel ''No dispatchers found''], Return ())
      | Some dispatchers \<Rightarrow>
     (case assert_map dispatchers of
        Panic \<Rightarrow> ([], Panic)
      | Return dispatchersMap \<Rightarrow>
     (case map_of dispatchersMap catalogDispatcherKey of
        None \<Rightarrow> ([Log DebugLevel ''No catalog dispatcher found''], Return ())
      | Some catalog \<Rightarrow>
     (case assert_map catalog of
        Panic \<Rightarrow> ([], Panic)
      | Return catalogMap \<Rightarrow>
     (case (map_of catalogMap catalogApplicationType, map_of catalogMap catalogSourceType,
            map_of catalogMap catalogSourceRef, map_of catalogMap catalogSourceName) of
        (Some applicationType, Some sourceType, Some sourceRef, Some sourceName) \<Rightarrow>
          (case (assert_string sourceRef, assert_string sourceName,
                 assert_string sourceType, assert_string applicationType) of
             (Return sr, Return sn, Return st, Return at) \<Rightarrow>
               (Call_RegisterWithSources ident account clientId sr sn st at #
                  (case RegisterWithSources e ident account clientId sr sn st at of
                     None \<Rightarrow> []
                   | Some err \<Rightarrow> [Log ErrorLevel ''Failed to register catalog with sources'']),
                Return ())
           | _ \<Rightarrow> ([], Panic))
      | _ \<Rightarrow>
          ([Log DebugLevel ''Found a catalog dispatcher, but missing some of the required fields''],
           Return ()))))))"

definition handleOnlineMessage ::
  "env \<Rightarrow> Config \<Rightarrow> clientID \<Rightarrow> json ControlMessage \<Rightarrow> event list \<times> error option outcome" where
  "handleOnlineMessage e cfg clientID msg =
     (let tr0 = [Log DebugLevel ''handling online connection-status message'',
                 Call_MapClientIdToAccountId clientID]
      in
      case MapClientIdToAccountId e clientID of
        Inl err \<Rightarrow>
          (tr0 @ [Log ErrorLevel ''Failed to resolve client id to account number'']
               @ fst (sendReconnectMessageToClient e (MqttControlPublishQoS cfg) clientID
                        ''Authentication failed'' (InvalidHandshakeReconnectDelay cfg)),
           Return (Some err))
      | Inr (ident, account) \<Rightarrow>
     (case assert_map (Content msg) of
        Panic \<Rightarrow> (tr0, Panic)
      | Return handshakePayload \<Rightarrow>
     (let rhcClient = \<lparr>ClientID = clientID, Account = account,
                       Dispatchers = index_map handshakePayload dispatchersKey,
                       CanonicalFacts = index_map handshakePayload canonicalFactsKey\<rparr>;
          tr1 = tr0 @ [Call_Register rhcClient]
      in
      case Register e rhcClient of
        Some err \<Rightarrow>
          (tr1 @ fst (sendReconnectMessageToClient e (MqttControlPublishQoS cfg) clientID
                        ''Connection registration failed'' (InvalidHandshakeReconnectDelay cfg)),
           Return (Some err))
      | None \<Rightarrow>
     (case shouldHostBeRegisteredWithInventory handshakePayload of
        Panic \<Rightarrow> (tr1, Panic)
      | Return should \<Rightarrow>
     (let recorded =
            (if should
             then ([Call_RecordConnectedClient ident rhcClient],
                   RecordConnectedClient e ident rhcClient)
             else ([], None))
      in
      case snd recorded of
        Some err \<Rightarrow>
          (tr1 @ fst recorded
               @ [Log ErrorLevel ''Failed to record client id within the platform'']
               @ fst (sendReconnectMessageToClient e (MqttControlPublishQoS cfg) clientID
                        ''rhc connection registration failed''
                        (InvalidHandshakeReconnectDelay cfg)),
           Return (Some err))
      | None \<Rightarrow>
     (let enrolled = processDispatchers e ident account clientID handshakePayload
      in (tr1 @ fst recorded @ fst enrolled,
          case snd enrolled of Panic \<Rightarrow> Panic | Return u \<Rightarrow> Return None)))))))"

section \<open>Offline, events, and the dispatch on the connection state\<close>

definition handleOfflineMessage ::
  "clientID \<Rightarrow> json ControlMessage \<Rightarrow> event list \<times> error option outcome" where
  "handleOfflineMessage clientID msg =
     ([Log DebugLevel ''handling offline connection-status message'',
       Call_Unregister clientID],
      Return None)"

definition handleEventMessage ::
  "clientID \<Rightarrow> json ControlMessage \<Rightarrow> event list \<times> error option outcome" where
  "handleEventMessage clientID msg =
     ([Log DebugLevel ''Received an event message from client''], Return None)"

text \<open>
  \<open>connectionState == "online"\<close> compares an \<open>interface{}\<close> with a string constant: it
  holds when the value is that very string.
\<close>

definition handleConnectionStatusMessage ::
  "env \<Rightarrow> Config \<Rightarrow> clientID \<Rightarrow> json ControlMessage \<Rightarrow> event list \<times> error option outcome" where
  "handleConnectionStatusMessage e cfg clientID msg =
     (let tr0 = [Log DebugLevel ''handling connection status control message'']
      in
      case assert_map (Content msg) of
        Panic \<Rightarrow> (tr0, Panic)
      | Return handshakePayload \<Rightarrow>
     (case map_of handshakePayload ''state'' of
        None \<Rightarrow> (tr0, Return (Some (ErrorString ''Invalid connection state'')))
      | Some connectionState \<Rightarrow>
          if connectionState = JString ''online'' then
            (let r = handleOnlineMessage e cfg clientID msg in (tr0 @ fst r, snd r))
          else if connectionState = JString ''offline'' then
            (let r = handleOfflineMessage clientID msg in (tr0 @ fst r, snd r))
          else
            (tr0 @ [Log DebugLevel ''Invalid connection state from connection-status message.''],
             Return (Some (ErrorString ''Invalid connection state'')))))"

text \<open>
  \<open>HandleControlMessage\<close> returns nothing: the error a handler returns is dropped, a
  panic is not recovered.
\<close>

definition HandleControlMessage ::
  "env \<Rightarrow> Config \<Rightarrow> string \<Rightarrow> string \<Rightarrow> event list \<times> unit outcome" where
  "HandleControlMessage e cfg topic payload =
     (let tr0 = [Log DebugLevel ''Received control message on topic'',
                 MetricInc ''controlMessageReceivedCounter'']
      in
      case VerifyIncomingTopic e topic of
        Inl err \<Rightarrow> (tr0 @ [Log ErrorLevel ''Failed to verify topic''], Return ())
      | Inr (tt, clientID) \<Rightarrow>
          if length payload = 0 then
            (tr0 @ [Log TraceLevel ''client sent an empty payload''], Return ())
          else
            (case json_Unmarshal e payload of
               Inl err \<Rightarrow> (tr0 @ [Log ErrorLevel ''Failed to unmarshal control message''], Return ())
             | Inr controlMsg \<Rightarrow>
                 (let tr1 = tr0 @ [Log DebugLevel ''Got a control message:'']
                  in
                  if MessageType controlMsg = ''connection-status'' then
                    (let r = handleConnectionStatusMessage e cfg clientID controlMsg
                     in (tr1 @ fst r, case snd r of Panic \<Rightarrow> Panic | Return x \<Rightarrow> Return ()))
                  else if MessageType controlMsg = ''event'' then
                    (let r = handleEventMessage clientID controlMsg
                     in (tr1 @ fst r, case snd r of Panic \<Rightarrow> Panic | Return x \<Rightarrow> Return ()))
                  else
                    (tr1 @ [Log DebugLevel ''Received an invalid message type:''], Return ()))))"

section \<open>Forwarding frames to Kafka\<close>

text \<open>\<open>fmt.Sprintf("%d", n)\<close> for an unsigned number: its decimal digits.\<close>

fun decimal :: "nat \<Rightarrow> string" where
  "decimal n =
     (if n < 10 then [''0123456789'' ! n]
      else decimal (n div 10) @ [''0123456789'' ! (n mod 10)])"

declare decimal.simps [simp del]

text \<open>
  The body of the goroutine that \<open>ControlMessageHandler\<close> starts for a frame: one call
  of \<open>WriteMessages\<close> with one record, then the log lines. \<open>logger.Fatal\<close> writes the
  line and ends the process with \<open>os.Exit(1)\<close>.
\<close>

definition writeToKafka :: "env \<Rightarrow> Message \<Rightarrow> string \<Rightarrow> event list" where
  "writeToKafka e message mqttMessageID =
     (let record =
            \<lparr>Headers = [\<lparr>header_Key = ''topic'', header_Value = message_Topic message\<rparr>,
                        \<lparr>header_Key = ''mqtt_message_id'', header_Value = mqttMessageID\<rparr>],
             Value = message_Payload message\<rparr>
      in
      [Call_WriteMessages record, Log DebugLevel ''MQTT message written to kafka''] @
      (case WriteMessages e record of
         None \<Rightarrow> []
       | Some err \<Rightarrow>
           Log ErrorLevel ''Error writing MQTT message to kafka'' #
           (if errors_Is_Canceled err then []
            else [Log FatalLevel ''Failed writing to kafka'', Exit 1])))"

text \<open>
  \<open>ControlMessageHandler\<close> returns the effects of the handler itself and, for each
  goroutine it starts, the effects of that goroutine.
\<close>

definition ControlMessageHandler :: "env \<Rightarrow> Message \<Rightarrow> event list \<times> event list list" where
  "ControlMessageHandler e message =
     (let mqttMessageID = decimal (unat (message_MessageID message))
      in
      case VerifyIncomingTopic e (message_Topic message) of
        Inl err \<Rightarrow> ([Log ErrorLevel ''Failed to verify topic''], [])
      | Inr (tt, clientID) \<Rightarrow>
          if length (message_Payload message) = 0 then
            ([Log TraceLevel ''client sent an empty payload''], [])
          else
            ([], [writeToKafka e message mqttMessageID]))"

definition DataMessageHandler :: "Message \<Rightarrow> event list \<times> event list list" where
  "DataMessageHandler message =
     ([Log DebugLevel ''Received data message on topic'',
       MetricInc ''dataMessageReceivedCounter''] @
      (if length (message_Payload message) = 0
       then [Log TraceLevel ''Received empty data message'']
       else []),
      [])"

definition DefaultMessageHandler ::
  "env \<Rightarrow> (Message \<Rightarrow> event list \<times> event list list) \<Rightarrow>
   (Message \<Rightarrow> event list \<times> event list list) \<Rightarrow> Message \<Rightarrow> event list \<times> event list list" where
  "DefaultMessageHandler e controlMessageHandler dataMessageHandler message =
     (let tr0 = [Log DebugLevel ''Received message on topic'']
      in
      case VerifyIncomingTopic e (message_Topic message) of
        Inl err \<Rightarrow> (tr0 @ [Log DebugLevel ''Topic verification failed''], [])
      | Inr (topicType, clientID) \<Rightarrow>
          if topicType = ControlTopicType then
            (let r = controlMessageHandler message in (tr0 @ fst r, snd r))
          else if topicType = DataTopicType then
            (let r = dataMessageHandler message in (tr0 @ fst r, snd r))
          else
            (tr0 @ [Log DebugLevel ''Received message on unknown topic''], []))"

section \<open>Observing a run\<close>

fun isRegister :: "event \<Rightarrow> bool" where
  "isRegister (Call_Register c) = True"
| "isRegister _ = False"

fun isUnregister :: "event \<Rightarrow> bool" where
  "isUnregister (Call_Unregister c) = True"
| "isUnregister _ = False"

fun isRecord :: "event \<Rightarrow> bool" where
  "isRecord (Call_RecordConnectedClient i c) = True"
| "isRecord _ = False"

fun isSources :: "event \<Rightarrow> bool" where
  "isSources (Call_RegisterWithSources i a c sr sn st at) = True"
| "isSources _ = False"

fun isPublish :: "event \<Rightarrow> bool" where
  "isPublish (Publish t q r b) = True"
| "isPublish _ = False"

fun isWrite :: "event \<Rightarrow> bool" where
  "isWrite (Call_WriteMessages m) = True"
| "isWrite _ = False"

fun isCollaboratorCall :: "event \<Rightarrow> bool" where
  "isCollaboratorCall (Call_MapClientIdToAccountId c) = True"
| "isCollaboratorCall (Call_Register c) = True"
| "isCollaboratorCall (Call_Unregister c) = True"
| "isCollaboratorCall (Call_RecordConnectedClient i c) = True"
| "isCollaboratorCall (Call_RegisterWithSources i a c sr sn st at) = True"
| "isCollaboratorCall _ = False"

fun isErrorLog :: "event \<Rightarrow> bool" where
  "isErrorLog (Log l s) = (l = ErrorLevel)"
| "isErrorLog _ = False"

text \<open>All the effects of a handler and of the goroutines it started.\<close>

definition allEffects :: "event list \<times> event list list \<Rightarrow> event list" where
  "allEffects r = fst r @ concat (snd r)"

text \<open>
  The \<open>RhcClient\<close> that \<open>handleOnlineMessage\<close> builds for the registrar and the recorder.
\<close>

definition registeredClient :: "clientID \<Rightarrow> accountID \<Rightarrow> (string \<times> json) list \<Rightarrow> RhcClient" where
  "registeredClient clientID account handshakePayload =
     \<lparr>ClientID = clientID, Account = account,
      Dispatchers = index_map handshakePayload dispatchersKey,
      CanonicalFacts = index_map handshakePayload canonicalFactsKey\<rparr>"

text \<open>The envelope of a reconnect command with message id \<open>u\<close>, sent at \<open>t\<close>.\<close>

definition reconnectMessage :: "uuid \<Rightarrow> timestamp \<Rightarrow> int \<Rightarrow> CommandMessageContent ControlMessage" where
  "reconnectMessage u t delay =
     \<lparr>MessageType = ''control'', MessageID = u, Version = 1, Sent = t,
      Content = \<lparr>Command = ''reconnect'', Arguments = [(''delay'', delay)]\<rparr>\<rparr>"


text \<open>The payload's \<open>dispatchers\<close> value is a map that has the key \<open>name\<close>.\<close>

definition hasDispatcher :: "(string \<times> json) list \<Rightarrow> string \<Rightarrow> bool" where
  "hasDispatcher handshakePayload name =
     (case map_of handshakePayload ''dispatchers'' of
        Some (JObject dispatchersMap) \<Rightarrow> map_of dispatchersMap name \<noteq> None
      | _ \<Rightarrow> False)"

text \<open>The shapes that the type assertions of the handshake expect.\<close>

fun isObject :: "json \<Rightarrow> bool" where
  "isObject (JObject m) = True"
| "isObject _ = False"

fun isString :: "json \<Rightarrow> bool" where
  "isString (JString s) = True"
| "isString _ = False"

definition dispatchersAbsentOrObject :: "(string \<times> json) list \<Rightarrow> bool" where
  "dispatchersAbsentOrObject handshakePayload =
     (case map_of handshakePayload ''dispatchers'' of
        None \<Rightarrow> True
      | Some dispatchers \<Rightarrow> isObject dispatchers)"

definition catalogShape :: "(string \<times> json) list \<Rightarrow> bool" where
  "catalogShape catalogMap =
     (case (map_of catalogMap ''ApplicationType'', map_of catalogMap ''SrcType'',
            map_of catalogMap ''SourceRef'', map_of catalogMap ''SrcName'') of
        (Some applicationType, Some sourceType, Some sourceRef, Some sourceName) \<Rightarrow>
          isString sourceRef \<and> isString sourceName \<and> isString sourceType
          \<and> isString applicationType
      | _ \<Rightarrow> True)"

definition handshakeShape :: "json \<Rightarrow> bool" where
  "handshakeShape content =
     (case content of
        JObject handshakePayload \<Rightarrow>
          (case map_of handshakePayload ''dispatchers'' of
             None \<Rightarrow> True
           | Some (JObject dispatchersMap) \<Rightarrow>
               (case map_of dispatchersMap ''catalog'' of
                  None \<Rightarrow> True
                | Some (JObject catalogMap) \<Rightarrow> catalogShape catalogMap
                | Some _ \<Rightarrow> False)
           | Some _ \<Rightarrow> False)
      | _ \<Rightarrow> False)"

text \<open>The Kafka record that \<open>ControlMessageHandler\<close> writes for a frame.\<close>

definition kafkaRecord :: "Message \<Rightarrow> kafka_Message" where
  "kafkaRecord message =
     \<lparr>Headers = [\<lparr>header_Key = ''topic'', header_Value = message_Topic message\<rparr>,
                 \<lparr>header_Key = ''mqtt_message_id'',
                  header_Value = decimal (unat (message_MessageID message))\<rparr>],
      Value = message_Payload message\<rparr>"

section \<open>An example deployment\<close>

text \<open>
  A concrete environment in which every collaborator succeeds, used to run the handlers
  on the frames of the end-to-end scenarios (client \<open>abc\<close>, prefix \<open>redhat/insights\<close>).
  Its decoder knows the two control frames below.
\<close>

definition status_msg :: "json \<Rightarrow> json ControlMessage" where
  "status_msg c =
     \<lparr>MessageType = ''connection-status'', MessageID = ''m1'', Version = 1, Sent = 0,
      Content = c\<rparr>"

definition online_msg :: "json ControlMessage" where
  "online_msg = status_msg (JObject [(''state'', JString ''online'')])"

definition offline_msg :: "json ControlMessage" where
  "offline_msg = status_msg (JObject [(''state'', JString ''offline'')])"

definition online_frame :: string where
  \<open>online_frame = ''{"MessageType":"connection-status","MessageID":"m1","Version":1,"Content":{"state":"online"}}''\<close>

definition offline_frame :: string where
  \<open>offline_frame = ''{"MessageType":"connection-status","MessageID":"m1","Version":1,"Content":{"state":"offline"}}''\<close>

definition example_env :: env where
  "example_env =
     \<lparr>VerifyIncomingTopic =
        (\<lambda>t. if t = ''redhat/insights/abc/control/in'' then Inr (ControlTopicType, ''abc'')
             else if t = ''redhat/insights/abc/data/in'' then Inr (DataTopicType, ''abc'')
             else Inl (ErrorString ''invalid topic'')),
      BuildOutgoingControlTopic = (\<lambda>c. ''redhat/insights/'' @ c @ ''/control/out''),
      json_Unmarshal =
        (\<lambda>s. if s = online_frame then Inr online_msg
             else if s = offline_frame then Inr offline_msg
             else Inl (ErrorString ''invalid character'')),
      json_Marshal = (\<lambda>m. Inr (MessageType m @ '' '' @ Command (Content m))),
      uuid_NewRandom = Inr ''0b1c'',
      time_Now = 0,
      MapClientIdToAccountId = (\<lambda>c. Inr (''identity-of-'' @ c, ''0001'')),
      Register = (\<lambda>c. None),
      RecordConnectedClient = (\<lambda>i c. None),
      RegisterWithSources = (\<lambda>i a c sr sn st at. None),
      WriteMessages = (\<lambda>m. None),
      token_Error = (\<lambda>t b. None)\<rparr>"

definition example_cfg :: Config where
  "example_cfg = \<lparr>MqttControlPublishQoS = 1, InvalidHandshakeReconnectDelay = 5\<rparr>"

text \<open>An online payload with canonical facts, the playbook worker and a catalog entry.\<close>

definition catalog_payload :: "(string \<times> json) list" where
  "catalog_payload =
     [(''state'', JString ''online''),
      (''canonical_facts'', JObject [(''fqdn'', JString ''h.x'')]),
      (''dispatchers'',
       JObject [(''rhc-worker-playbook'', JObject []),
                (''catalog'',
                 JObject [(''ApplicationType'', JString ''A''), (''SrcName'', JString ''N''),
                          (''SourceRef'', JString ''R''), (''SrcType'', JString ''T'')])])]"

text \<open>The content of scenario S2, whose catalog entry names its reference \<open>SrcRef\<close>.\<close>

definition scenario_S2_catalog :: "(string \<times> json) list" where
  "scenario_S2_catalog =
     [(''ApplicationType'', JString ''A''), (''SrcName'', JString ''N''),
      (''SrcRef'', JString ''R''), (''SrcType'', JString ''T'')]"

definition scenario_S2_payload :: "(string \<times> json) list" where
  "scenario_S2_payload =
     [(''state'', JString ''online''),
      (''canonical_facts'', JObject [(''fqdn'', JString ''h.x'')]),
      (''dispatchers'',
       JObject [(''rhc-worker-playbook'', JObject []),
                (''catalog'', JObject scenario_S2_catalog)])]"

text \<open>The data frame of scenario S6, with MQTT message id 7.\<close>

definition data_frame :: Message where
  "data_frame =
     \<lparr>message_Topic = ''redhat/insights/abc/data/in'', message_MessageID = 7,
      message_Payload = [CHR 0xDE, CHR 0xAD, CHR 0xBE, CHR 0xEF]\<rparr>"

text \<open>A control frame carrying the online handshake, with MQTT message id 7.\<close>

definition control_frame :: Message where
  "control_frame =
     \<lparr>message_Topic = ''redhat/insights/abc/control/in'', message_MessageID = 7,
      message_Payload = online_frame\<rparr>"

text \<open>The same deployment with one collaborator failing.\<close>

definition unknown_client_env :: env where
  "unknown_client_env =
     example_env\<lparr>MapClientIdToAccountId := (\<lambda>c. Inl (ErrorString ''unknown client''))\<rparr>"




definition kafka_down_env :: env where
  "kafka_down_env =
     example_env\<lparr>WriteMessages := (\<lambda>m. Some (ErrorString ''broker unreachable''))\<rparr>"

definition kafka_canceled_env :: env where
  "kafka_canceled_env =
     example_env\<lparr>WriteMessages := (\<lambda>m. Some (Wrapped ''write'' ContextCanceled))\<rparr>"

text \<open>Contents that break the shape the handshake expects.\<close>

definition malformed_msg :: "json ControlMessage" where
  "malformed_msg = status_msg (JString ''online'')"

definition bad_dispatchers_payload :: "(string \<times> json) list" where
  "bad_dispatchers_payload = [(''state'', JString ''online''), (''dispatchers'', JArray [])]"

text \<open>A connection-status frame without any content: \<open>Content\<close> decodes to \<open>nil\<close>.\<close>

definition null_content_msg :: "json ControlMessage" where
  "null_content_msg = status_msg JNull"

definition null_content_frame :: string where
  \<open>null_content_frame = ''{"MessageType":"connection-status","MessageID":"m1","Version":1}''\<close>

text \<open>The deployment with a decoder that yields the message \<open>m\<close>.\<close>

definition decoding_env :: "json ControlMessage \<Rightarrow> env" where
  "decoding_env m = example_env\<lparr>json_Unmarshal := (\<lambda>s. Inr m)\<rparr>"

section \<open>Properties\<close>

subsection \<open>Unfolding the handshake\<close>

lemmas payload_keys =
  canonicalFactsKey_def dispatchersKey_def catalogDispatcherKey_def
  catalogApplicationType_def catalogSourceName_def catalogSourceRef_def
  catalogSourceType_def playbookWorkerDispatcherKey_def

lemmas online_defs =
  handleOnlineMessage_def shouldHostBeRegisteredWithInventory_def
  doesHostHaveCanonicalFacts_def doesHostHavePlaybookWorker_def
  processDispatchers_def index_map_def Let_def

lemma assert_map_Return: "assert_map j = Return m \<longleftrightarrow> j = JObject m"
  by (cases j) auto

lemma assert_map_Panic: "assert_map j = Panic \<longleftrightarrow> \<not> isObject j"
  by (cases j) auto

lemma assert_string_Return: "assert_string j = Return s \<longleftrightarrow> j = JString s"
  by (cases j) auto

lemma assert_string_Panic: "assert_string j = Panic \<longleftrightarrow> \<not> isString j"
  by (cases j) auto

subsection \<open>What sending a reconnect command does\<close>

lemmas sendReconnect_defs =
  sendReconnectMessageToClient_def buildReconnectMessage_def buildControlMessage_def
  sendMessage_def Let_def

lemma sendReconnect_events:
  "x \<in> set (fst (sendReconnectMessageToClient e qos c r d)) \<Longrightarrow>
     (\<exists>s. x = Log DebugLevel s)
     \<or> (\<exists>b. x = Publish (BuildOutgoingControlTopic e c) qos False b)
     \<or> (\<exists>g. x = Go g)"
  by (auto simp add: sendReconnect_defs split: sum.splits)

lemma sendReconnect_no_collaborator [simp]:
  "filter isCollaboratorCall (fst (sendReconnectMessageToClient e qos c r d)) = []"
  by (auto simp add: filter_empty_conv dest!: sendReconnect_events)

lemma sendReconnect_no_register [simp]:
  "filter isRegister (fst (sendReconnectMessageToClient e qos c r d)) = []"
  by (auto simp add: filter_empty_conv dest!: sendReconnect_events)

lemma sendReconnect_no_unregister [simp]:
  "filter isUnregister (fst (sendReconnectMessageToClient e qos c r d)) = []"
  by (auto simp add: filter_empty_conv dest!: sendReconnect_events)

lemma sendReconnect_no_record [simp]:
  "filter isRecord (fst (sendReconnectMessageToClient e qos c r d)) = []"
  by (auto simp add: filter_empty_conv dest!: sendReconnect_events)

lemma sendReconnect_no_sources [simp]:
  "filter isSources (fst (sendReconnectMessageToClient e qos c r d)) = []"
  by (auto simp add: filter_empty_conv dest!: sendReconnect_events)



lemma sendReconnect_publish:
  assumes "uuid_NewRandom e = Inr u"
      and "json_Marshal e (reconnectMessage u (time_Now e) d) = Inr b"
  shows "filter isPublish (fst (sendReconnectMessageToClient e qos c r d))
           = [Publish (BuildOutgoingControlTopic e c) qos False b]"
  using assms by (simp add: sendReconnect_defs reconnectMessage_def)

subsection \<open>What enrolling with sources does\<close>

text \<open>The runs of \<open>processDispatchers\<close>: what it does and how it ends.\<close>

lemma processDispatchers_runs:
  "processDispatchers e i a c hp = (tr, out) \<Longrightarrow>
     (tr = [] \<and> out = Panic)
     \<or> (\<exists>s. tr = [Log DebugLevel s] \<and> out = Return ())
     \<or> (\<exists>sr sn st at.
           (tr = [Call_RegisterWithSources i a c sr sn st at]
            \<or> tr = [Call_RegisterWithSources i a c sr sn st at,
                     Log ErrorLevel ''Failed to register catalog with sources''])
           \<and> out = Return ())"
  by (auto simp add: processDispatchers_def split: option.splits outcome.splits)

lemma processDispatchers_runs_proj:
  "(fst (processDispatchers e i a c hp) = [] \<and> snd (processDispatchers e i a c hp) = Panic)
     \<or> (\<exists>s. fst (processDispatchers e i a c hp) = [Log DebugLevel s]
            \<and> snd (processDispatchers e i a c hp) = Return ())
     \<or> (\<exists>sr sn st at.
           (fst (processDispatchers e i a c hp) = [Call_RegisterWithSources i a c sr sn st at]
            \<or> fst (processDispatchers e i a c hp) =
                 [Call_RegisterWithSources i a c sr sn st at,
                  Log ErrorLevel ''Failed to register catalog with sources''])
           \<and> snd (processDispatchers e i a c hp) = Return ())"
  using processDispatchers_runs [OF prod.collapse [symmetric]] .

lemma processDispatchers_no_publish [simp]:
  "filter isPublish (fst (processDispatchers e i a c hp)) = []"
  using processDispatchers_runs_proj [of e i a c hp] by auto

lemma processDispatchers_no_register [simp]:
  "filter isRegister (fst (processDispatchers e i a c hp)) = []"
  using processDispatchers_runs_proj [of e i a c hp] by auto

lemma processDispatchers_no_unregister [simp]:
  "filter isUnregister (fst (processDispatchers e i a c hp)) = []"
  using processDispatchers_runs_proj [of e i a c hp] by auto

lemma processDispatchers_no_record [simp]:
  "filter isRecord (fst (processDispatchers e i a c hp)) = []"
  using processDispatchers_runs_proj [of e i a c hp] by auto



subsection \<open>The branches of the online handshake\<close>

text \<open>The branches of \<open>handleOnlineMessage\<close>, one lemma for each way it can end.\<close>

lemma online_resolve_failed:
  assumes "MapClientIdToAccountId e clientID = Inl err"
  shows "handleOnlineMessage e cfg clientID msg =
           ([Log DebugLevel ''handling online connection-status message'',
             Call_MapClientIdToAccountId clientID,
             Log ErrorLevel ''Failed to resolve client id to account number'']
            @ fst (sendReconnectMessageToClient e (MqttControlPublishQoS cfg) clientID
                     ''Authentication failed'' (InvalidHandshakeReconnectDelay cfg)),
            Return (Some err))"
  using assms by (simp add: handleOnlineMessage_def)


lemma online_register_failed:
  assumes "MapClientIdToAccountId e clientID = Inr (ident, account)"
      and "Content msg = JObject hp"
      and "Register e (registeredClient clientID account hp) = Some err"
  shows "handleOnlineMessage e cfg clientID msg =
           ([Log DebugLevel ''handling online connection-status message'',
             Call_MapClientIdToAccountId clientID,
             Call_Register (registeredClient clientID account hp)]
            @ fst (sendReconnectMessageToClient e (MqttControlPublishQoS cfg) clientID
                     ''Connection registration failed'' (InvalidHandshakeReconnectDelay cfg)),
            Return (Some err))"
  using assms by (simp add: handleOnlineMessage_def registeredClient_def Let_def)

lemma online_gate_panic:
  assumes "MapClientIdToAccountId e clientID = Inr (ident, account)"
      and "Content msg = JObject hp"
      and "Register e (registeredClient clientID account hp) = None"
      and "shouldHostBeRegisteredWithInventory hp = Panic"
  shows "handleOnlineMessage e cfg clientID msg =
           ([Log DebugLevel ''handling online connection-status message'',
             Call_MapClientIdToAccountId clientID,
             Call_Register (registeredClient clientID account hp)], Panic)"
  using assms by (simp add: handleOnlineMessage_def registeredClient_def Let_def)

lemma online_record_failed:
  assumes "MapClientIdToAccountId e clientID = Inr (ident, account)"
      and "Content msg = JObject hp"
      and "Register e (registeredClient clientID account hp) = None"
      and "shouldHostBeRegisteredWithInventory hp = Return True"
      and "RecordConnectedClient e ident (registeredClient clientID account hp) = Some err"
  shows "handleOnlineMessage e cfg clientID msg =
           ([Log DebugLevel ''handling online connection-status message'',
             Call_MapClientIdToAccountId clientID,
             Call_Register (registeredClient clientID account hp),
             Call_RecordConnectedClient ident (registeredClient clientID account hp),
             Log ErrorLevel ''Failed to record client id within the platform'']
            @ fst (sendReconnectMessageToClient e (MqttControlPublishQoS cfg) clientID
                     ''rhc connection registration failed''
                     (InvalidHandshakeReconnectDelay cfg)),
            Return (Some err))"
  using assms by (simp add: handleOnlineMessage_def registeredClient_def Let_def)

lemma online_recorded:
  assumes "MapClientIdToAccountId e clientID = Inr (ident, account)"
      and "Content msg = JObject hp"
      and "Register e (registeredClient clientID account hp) = None"
      and "shouldHostBeRegisteredWithInventory hp = Return True"
      and "RecordConnectedClient e ident (registeredClient clientID account hp) = None"
  shows "handleOnlineMessage e cfg clientID msg =
           ([Log DebugLevel ''handling online connection-status message'',
             Call_MapClientIdToAccountId clientID,
             Call_Register (registeredClient clientID account hp),
             Call_RecordConnectedClient ident (registeredClient clientID account hp)]
            @ fst (processDispatchers e ident account clientID hp),
            case snd (processDispatchers e ident account clientID hp) of
              Panic \<Rightarrow> Panic | Return u \<Rightarrow> Return None)"
  using assms by (simp add: handleOnlineMessage_def registeredClient_def Let_def)

lemma online_not_recorded:
  assumes "MapClientIdToAccountId e clientID = Inr (ident, account)"
      and "Content msg = JObject hp"
      and "Register e (registeredClient clientID account hp) = None"
      and "shouldHostBeRegisteredWithInventory hp = Return False"
  shows "handleOnlineMessage e cfg clientID msg =
           ([Log DebugLevel ''handling online connection-status message'',
             Call_MapClientIdToAccountId clientID,
             Call_Register (registeredClient clientID account hp)]
            @ fst (processDispatchers e ident account clientID hp),
            case snd (processDispatchers e ident account clientID hp) of
              Panic \<Rightarrow> Panic | Return u \<Rightarrow> Return None)"
  using assms by (simp add: handleOnlineMessage_def registeredClient_def Let_def)

lemma online_cases [case_names resolve_failed content_panic register_failed gate_panic
                               record_failed recorded not_recorded]:
  obtains
    (resolve_failed) err where
      "MapClientIdToAccountId e clientID = Inl err"
  | (content_panic) ident account where
      "MapClientIdToAccountId e clientID = Inr (ident, account)"
      "assert_map (Content msg) = Panic"
  | (register_failed) ident account hp err where
      "MapClientIdToAccountId e clientID = Inr (ident, account)"
      "Content msg = JObject hp"
      "Register e (registeredClient clientID account hp) = Some err"
  | (gate_panic) ident account hp where
      "MapClientIdToAccountId e clientID = Inr (ident, account)"
      "Content msg = JObject hp"
      "Register e (registeredClient clientID account hp) = None"
      "shouldHostBeRegisteredWithInventory hp = Panic"
  | (record_failed) ident account hp err where
      "MapClientIdToAccountId e clientID = Inr (ident, account)"
      "Content msg = JObject hp"
      "Register e (registeredClient clientID account hp) = None"
      "shouldHostBeRegisteredWithInventory hp = Return True"
      "RecordConnectedClient e ident (registeredClient clientID account hp) = Some err"
  | (recorded) ident account hp where
      "MapClientIdToAccountId e clientID = Inr (ident, account)"
      "Content msg = JObject hp"
      "Register e (registeredClient clientID account hp) = None"
      "shouldHostBeRegisteredWithInventory hp = Return True"
      "RecordConnectedClient e ident (registeredClient clientID account hp) = None"
  | (not_recorded) ident account hp where
      "MapClientIdToAccountId e clientID = Inr (ident, account)"
      "Content msg = JObject hp"
      "Register e (registeredClient clientID account hp) = None"
      "shouldHostBeRegisteredWithInventory hp = Return False"
proof (cases "MapClientIdToAccountId e clientID")
  case (Inl err)
  then show ?thesis by (rule resolve_failed)
next
  case (Inr p)
  then obtain ident account where res: "MapClientIdToAccountId e clientID = Inr (ident, account)"
    by (cases p) simp
  show ?thesis
  proof (cases "assert_map (Content msg)")
    case Panic
    with res show ?thesis by (rule content_panic)
  next
    case (Return hp)
    then have content: "Content msg = JObject hp"
      by (cases "Content msg") simp_all
    show ?thesis
    proof (cases "Register e (registeredClient clientID account hp)")
      case (Some err)
      with res content show ?thesis by (rule register_failed)
    next
      case None
      note reg = this
      show ?thesis
      proof (cases "shouldHostBeRegisteredWithInventory hp")
        case Panic
        with res content reg show ?thesis by (rule gate_panic)
      next
        case (Return should)
        show ?thesis
        proof (cases should)
          case False
          with Return res content reg show ?thesis by (simp add: not_recorded)
        next
          case True
          with Return have gate: "shouldHostBeRegisteredWithInventory hp = Return True" by simp
          show ?thesis
          proof (cases "RecordConnectedClient e ident (registeredClient clientID account hp)")
            case None
            with res content reg gate show ?thesis by (rule recorded)
          next
            case (Some err)
            with res content reg gate show ?thesis by (rule record_failed)
          qed
        qed
      qed
    qed
  qed
qed

lemma connection_status_online:
  assumes "Content msg = JObject hp"
      and "map_of hp ''state'' = Some (JString ''online'')"
  shows "handleConnectionStatusMessage e cfg clientID msg =
           (Log DebugLevel ''handling connection status control message''
              # fst (handleOnlineMessage e cfg clientID msg),
            snd (handleOnlineMessage e cfg clientID msg))"
  using assms by (simp add: handleConnectionStatusMessage_def Let_def)

subsection \<open>The offline transition\<close>



subsection \<open>An invalid or missing connection state\<close>

text \<open>
  When the content is a map whose \<open>state\<close> is neither \<open>online\<close> nor \<open>offline\<close>, or
  has no \<open>state\<close> at all, the message is dropped with the error
  \<open>Invalid connection state\<close>: nothing is published and no collaborator is called.
\<close>

theorem invalid_state_dropped:
  assumes "Content msg = JObject handshakePayload"
      and "map_of handshakePayload ''state'' \<noteq> Some (JString ''online'')"
      and "map_of handshakePayload ''state'' \<noteq> Some (JString ''offline'')"
  shows "snd (handleConnectionStatusMessage e cfg clientID msg)
           = Return (Some (ErrorString ''Invalid connection state''))
         \<and> filter isPublish (fst (handleConnectionStatusMessage e cfg clientID msg)) = []
         \<and> filter isCollaboratorCall (fst (handleConnectionStatusMessage e cfg clientID msg)) = []"
  using assms
  by (cases "map_of handshakePayload ''state''")
     (simp_all add: handleConnectionStatusMessage_def Let_def)

theorem invalid_state_dropped_witness:
  "Content (status_msg (JObject [(''state'', JString ''standby'')]))
     = JObject [(''state'', JString ''standby'')]
   \<and> map_of [(''state'', JString ''standby'')] ''state'' \<noteq> Some (JString ''online'')
   \<and> map_of [(''state'', JString ''standby'')] ''state'' \<noteq> Some (JString ''offline'')
   \<and> snd (handleConnectionStatusMessage example_env example_cfg ''abc''
            (status_msg (JObject [(''state'', JString ''standby'')])))
       = Return (Some (ErrorString ''Invalid connection state''))
   \<and> filter isPublish
        (fst (handleConnectionStatusMessage example_env example_cfg ''abc''
               (status_msg (JObject [(''state'', JString ''standby'')])))) = []
   \<and> filter isCollaboratorCall
        (fst (handleConnectionStatusMessage example_env example_cfg ''abc''
               (status_msg (JObject [(''state'', JString ''standby'')])))) = []
   \<and> snd (handleConnectionStatusMessage example_env example_cfg ''abc''
            (status_msg (JObject [(''canonical_facts'', JObject [])])))
       = Return (Some (ErrorString ''Invalid connection state''))"
  using invalid_state_dropped
          [of "status_msg (JObject [(''state'', JString ''standby'')])"
              "[(''state'', JString ''standby'')]" example_env example_cfg "''abc''"]
        invalid_state_dropped
          [of "status_msg (JObject [(''canonical_facts'', JObject [])])"
              "[(''canonical_facts'', JObject [])]" example_env example_cfg "''abc''"]
  by (simp add: status_msg_def)

subsection \<open>A failing account resolver\<close>




subsection \<open>A failing sources recorder\<close>



subsection \<open>The inventory gate\<close>

lemma gate_true_iff:
  "shouldHostBeRegisteredWithInventory hp = Return True \<longleftrightarrow>
     map_of hp ''canonical_facts'' \<noteq> None \<and> hasDispatcher hp ''rhc-worker-playbook''"
  by (auto simp add: shouldHostBeRegisteredWithInventory_def doesHostHaveCanonicalFacts_def
        doesHostHavePlaybookWorker_def hasDispatcher_def canonicalFactsKey_def dispatchersKey_def
        playbookWorkerDispatcherKey_def
      split: option.splits json.splits)

lemma gate_panic_iff:
  "shouldHostBeRegisteredWithInventory hp = Panic \<longleftrightarrow>
     map_of hp ''canonical_facts'' \<noteq> None \<and> \<not> dispatchersAbsentOrObject hp"
  by (auto simp add: shouldHostBeRegisteredWithInventory_def doesHostHaveCanonicalFacts_def
        doesHostHavePlaybookWorker_def dispatchersAbsentOrObject_def canonicalFactsKey_def
        dispatchersKey_def assert_map_Panic assert_map_Return
      split: option.splits outcome.splits)

text \<open>
  Claim C4, as amended. In an online handshake the connected-client recorder is called
  only if the payload has the key \<open>canonical_facts\<close> and its \<open>dispatchers\<close> map has the
  key \<open>rhc-worker-playbook\<close>. When the handshake reaches the gate, that is when the
  account resolver and \<open>Register\<close> have both succeeded, the recorder is called (once, with
  the resolved identity and the registered client) if both conditions hold; if either
  fails, and \<open>dispatchers\<close> is absent or a map, the recorder is not called and the
  handshake goes on to \<open>processDispatchers\<close>, whose outcome it returns.
\<close>

theorem inventory_gate:
  assumes content: "Content msg = JObject hp"
  shows "(filter isRecord (fst (handleOnlineMessage e cfg clientID msg)) \<noteq> [] \<longrightarrow>
            map_of hp ''canonical_facts'' \<noteq> None \<and> hasDispatcher hp ''rhc-worker-playbook'')
       \<and> (MapClientIdToAccountId e clientID = Inr (ident, account) \<longrightarrow>
          Register e (registeredClient clientID account hp) = None \<longrightarrow>
            (map_of hp ''canonical_facts'' \<noteq> None \<and> hasDispatcher hp ''rhc-worker-playbook'' \<longrightarrow>
               filter isRecord (fst (handleOnlineMessage e cfg clientID msg))
                 = [Call_RecordConnectedClient ident (registeredClient clientID account hp)])
          \<and> (\<not> (map_of hp ''canonical_facts'' \<noteq> None \<and> hasDispatcher hp ''rhc-worker-playbook'') \<longrightarrow>
             dispatchersAbsentOrObject hp \<longrightarrow>
               handleOnlineMessage e cfg clientID msg =
                 ([Log DebugLevel ''handling online connection-status message'',
                   Call_MapClientIdToAccountId clientID,
                   Call_Register (registeredClient clientID account hp)]
                  @ fst (processDispatchers e ident account clientID hp),
                  case snd (processDispatchers e ident account clientID hp) of
                    Panic \<Rightarrow> Panic | Return u \<Rightarrow> Return None)))"
proof (cases rule: online_cases [where e = e and clientID = clientID and msg = msg])
  case (resolve_failed err)
  then show ?thesis by (simp add: online_resolve_failed)
next
  case (content_panic ident' account')
  with content show ?thesis by simp
next
  case (register_failed ident' account' hp' err)
  with content show ?thesis by (auto simp add: online_register_failed)
next
  case (gate_panic ident' account' hp')
  with content have "hp' = hp" by simp
  with gate_panic show ?thesis
    using gate_panic_iff [of hp] gate_true_iff [of hp]
    by (auto simp add: online_gate_panic)
next
  case (record_failed ident' account' hp' err)
  with content have "hp' = hp" by simp
  with record_failed show ?thesis
    using gate_true_iff [of hp] by (auto simp add: online_record_failed)
next
  case (recorded ident' account' hp')
  with content have "hp' = hp" by simp
  with recorded show ?thesis
    using gate_true_iff [of hp] by (auto simp add: online_recorded)
next
  case (not_recorded ident' account' hp')
  with content have "hp' = hp" by simp
  with not_recorded show ?thesis
    using gate_true_iff [of hp] by (auto simp add: online_not_recorded)
qed

theorem inventory_gate_witness:
  "Content (status_msg (JObject catalog_payload)) = JObject catalog_payload
   \<and> MapClientIdToAccountId example_env ''abc'' = Inr (''identity-of-abc'', ''0001'')
   \<and> Register example_env (registeredClient ''abc'' ''0001'' catalog_payload) = None
   \<and> map_of catalog_payload ''canonical_facts'' \<noteq> None
   \<and> hasDispatcher catalog_payload ''rhc-worker-playbook''
   \<and> filter isRecord
        (fst (handleOnlineMessage example_env example_cfg ''abc''
               (status_msg (JObject catalog_payload))))
       = [Call_RecordConnectedClient ''identity-of-abc''
            (registeredClient ''abc'' ''0001'' catalog_payload)]
   \<and> Content online_msg = JObject [(''state'', JString ''online'')]
   \<and> \<not> hasDispatcher [(''state'', JString ''online'')] ''rhc-worker-playbook''
   \<and> dispatchersAbsentOrObject [(''state'', JString ''online'')]
   \<and> handleOnlineMessage example_env example_cfg ''abc'' online_msg =
        ([Log DebugLevel ''handling online connection-status message'',
          Call_MapClientIdToAccountId ''abc'',
          Call_Register (registeredClient ''abc'' ''0001'' [(''state'', JString ''online'')])]
         @ fst (processDispatchers example_env ''identity-of-abc'' ''0001'' ''abc''
                  [(''state'', JString ''online'')]),
         case snd (processDispatchers example_env ''identity-of-abc'' ''0001'' ''abc''
                     [(''state'', JString ''online'')]) of
           Panic \<Rightarrow> Panic | Return u \<Rightarrow> Return None)"
  using inventory_gate
          [of "status_msg (JObject catalog_payload)" catalog_payload example_env example_cfg
              "''abc''" "''identity-of-abc''" "''0001''"]
        inventory_gate
          [of online_msg "[(''state'', JString ''online'')]" example_env example_cfg
              "''abc''" "''identity-of-abc''" "''0001''"]
  by (simp add: status_msg_def online_msg_def example_env_def catalog_payload_def
                hasDispatcher_def dispatchersAbsentOrObject_def)

text \<open>
  The claim as stated, for every online payload, fails when the resolver rejects the
  client: both keys are there and the recorder is not called.
\<close>

theorem inventory_gate_counterexample:
  "map_of catalog_payload ''state'' = Some (JString ''online'')
   \<and> map_of catalog_payload ''canonical_facts'' \<noteq> None
   \<and> hasDispatcher catalog_payload ''rhc-worker-playbook''
   \<and> filter isRecord
        (fst (handleConnectionStatusMessage unknown_client_env example_cfg ''abc''
               (status_msg (JObject catalog_payload)))) = []"
  by (simp add: connection_status_online [where hp = catalog_payload]
                online_resolve_failed [where err = "ErrorString ''unknown client''"]
                status_msg_def catalog_payload_def hasDispatcher_def
                unknown_client_env_def)

subsection \<open>Registration and reconnect commands\<close>

lemma control_frame_dispatch:
  assumes "VerifyIncomingTopic e topic = Inr (tt, clientID)"
      and "payload \<noteq> []"
      and "json_Unmarshal e payload = Inr msg"
      and "MessageType msg = ''connection-status''"
  shows "HandleControlMessage e cfg topic payload =
           ([Log DebugLevel ''Received control message on topic'',
             MetricInc ''controlMessageReceivedCounter'',
             Log DebugLevel ''Got a control message:'']
            @ fst (handleConnectionStatusMessage e cfg clientID msg),
            case snd (handleConnectionStatusMessage e cfg clientID msg) of
              Panic \<Rightarrow> Panic | Return x \<Rightarrow> Return ())"
  using assms by (simp add: HandleControlMessage_def Let_def)






subsection \<open>Enrolling a catalog with sources\<close>

lemma processDispatchers_enrolls:
  assumes "map_of hp ''dispatchers'' = Some (JObject d)"
      and "map_of d ''catalog'' = Some (JObject c)"
      and "map_of c ''ApplicationType'' = Some (JString at)"
      and "map_of c ''SrcName'' = Some (JString sn)"
      and "map_of c ''SourceRef'' = Some (JString sr)"
      and "map_of c ''SrcType'' = Some (JString st)"
  shows "processDispatchers e ident account clientID hp =
           (Call_RegisterWithSources ident account clientID sr sn st at #
              (case RegisterWithSources e ident account clientID sr sn st at of
                 None \<Rightarrow> []
               | Some err \<Rightarrow> [Log ErrorLevel ''Failed to register catalog with sources'']),
            Return ())"
  using assms by (simp add: processDispatchers_def payload_keys)

lemma processDispatchers_skips:
  assumes "map_of hp ''dispatchers'' = Some (JObject d)"
      and "map_of d ''catalog'' = Some (JObject c)"
      and "map_of c ''ApplicationType'' = None \<or> map_of c ''SrcName'' = None
           \<or> map_of c ''SourceRef'' = None \<or> map_of c ''SrcType'' = None"
  shows "processDispatchers e ident account clientID hp =
           ([Log DebugLevel
               ''Found a catalog dispatcher, but missing some of the required fields''],
            Return ())"
  using assms by (auto simp add: processDispatchers_def payload_keys split: option.splits)

lemma processDispatchers_called_only_if:
  assumes "map_of hp ''dispatchers'' = Some (JObject d)"
      and "map_of d ''catalog'' = Some (JObject c)"
      and "filter isSources (fst (processDispatchers e ident account clientID hp)) \<noteq> []"
  shows "\<exists>at sn sr st.
           map_of c ''ApplicationType'' = Some (JString at)
           \<and> map_of c ''SrcName'' = Some (JString sn)
           \<and> map_of c ''SourceRef'' = Some (JString sr)
           \<and> map_of c ''SrcType'' = Some (JString st)"
  using assms
  by (auto simp add: processDispatchers_def payload_keys assert_string_Return
           split: option.splits outcome.splits)

text \<open>
  Claim C2, as amended. Take an online connection-status payload whose \<open>dispatchers\<close> map
  has the key \<open>catalog\<close> with a map as its entry, in a handshake that reaches the
  enrollment: the resolver and \<open>Register\<close> succeed, and the recorder, where the inventory
  gate calls it, succeeds. Then \<open>RegisterWithSources\<close> is called if and only if the
  catalog entry has the four keys \<open>ApplicationType\<close>, \<open>SrcName\<close>, \<open>SourceRef\<close> and
  \<open>SrcType\<close> with strings as their values. When it has them, the recorder is called
  exactly once, with the resolved identity and account, the client id and those four
  values (reference, name, type, application type); when any of the four keys is missing,
  the enrollment is skipped and the handshake returns \<open>nil\<close>. The key of the source
  reference is \<open>SourceRef\<close>, not \<open>SrcRef\<close>.
\<close>

theorem sources_enrollment:
  assumes "MapClientIdToAccountId e clientID = Inr (ident, account)"
      and "Content msg = JObject hp"
      and "Register e (registeredClient clientID account hp) = None"
      and "map_of hp ''canonical_facts'' \<noteq> None \<and> hasDispatcher hp ''rhc-worker-playbook'' \<longrightarrow>
             RecordConnectedClient e ident (registeredClient clientID account hp) = None"
      and "map_of hp ''dispatchers'' = Some (JObject d)"
      and "map_of d ''catalog'' = Some (JObject c)"
  shows "(filter isSources (fst (handleOnlineMessage e cfg clientID msg)) \<noteq> [] \<longleftrightarrow>
            (\<exists>at' sn' sr' st'.
               map_of c ''ApplicationType'' = Some (JString at')
               \<and> map_of c ''SrcName'' = Some (JString sn')
               \<and> map_of c ''SourceRef'' = Some (JString sr')
               \<and> map_of c ''SrcType'' = Some (JString st')))
       \<and> (map_of c ''ApplicationType'' = Some (JString at)
          \<and> map_of c ''SrcName'' = Some (JString sn)
          \<and> map_of c ''SourceRef'' = Some (JString sr)
          \<and> map_of c ''SrcType'' = Some (JString st) \<longrightarrow>
            filter isSources (fst (handleOnlineMessage e cfg clientID msg))
              = [Call_RegisterWithSources ident account clientID sr sn st at])
       \<and> (map_of c ''ApplicationType'' = None \<or> map_of c ''SrcName'' = None
          \<or> map_of c ''SourceRef'' = None \<or> map_of c ''SrcType'' = None \<longrightarrow>
            filter isSources (fst (handleOnlineMessage e cfg clientID msg)) = []
            \<and> snd (handleOnlineMessage e cfg clientID msg) = Return None)"
proof -
  have shape: "dispatchersAbsentOrObject hp"
    using assms(5) by (simp add: dispatchersAbsentOrObject_def)
  have run:
    "filter isSources (fst (handleOnlineMessage e cfg clientID msg))
       = filter isSources (fst (processDispatchers e ident account clientID hp))
     \<and> snd (handleOnlineMessage e cfg clientID msg)
       = (case snd (processDispatchers e ident account clientID hp) of
            Panic \<Rightarrow> Panic | Return u \<Rightarrow> Return None)"
  proof (cases "shouldHostBeRegisteredWithInventory hp")
    case Panic
    with shape show ?thesis by (simp add: gate_panic_iff)
  next
    case (Return should)
    show ?thesis
    proof (cases should)
      case True
      with Return have gate: "shouldHostBeRegisteredWithInventory hp = Return True" by simp
      with assms(4) have "RecordConnectedClient e ident (registeredClient clientID account hp) = None"
        by (simp add: gate_true_iff)
      with assms(1-3) gate show ?thesis by (simp add: online_recorded)
    next
      case False
      with Return assms(1-3) show ?thesis by (simp add: online_not_recorded)
    qed
  qed
  have called_if:
    "filter isSources (fst (handleOnlineMessage e cfg clientID msg))
       = [Call_RegisterWithSources ident account clientID sr' sn' st' at']"
    if "map_of c ''ApplicationType'' = Some (JString at')"
       "map_of c ''SrcName'' = Some (JString sn')"
       "map_of c ''SourceRef'' = Some (JString sr')"
       "map_of c ''SrcType'' = Some (JString st')" for at' sn' sr' st'
    using run processDispatchers_enrolls [OF assms(5,6) that, of e ident account clientID]
    by (simp split: option.splits)
  have only_if:
    "\<exists>at' sn' sr' st'.
       map_of c ''ApplicationType'' = Some (JString at')
       \<and> map_of c ''SrcName'' = Some (JString sn')
       \<and> map_of c ''SourceRef'' = Some (JString sr')
       \<and> map_of c ''SrcType'' = Some (JString st')"
    if "filter isSources (fst (handleOnlineMessage e cfg clientID msg)) \<noteq> []"
    using that run processDispatchers_called_only_if [OF assms(5,6), of e ident account clientID]
    by simp
  have skipped:
    "filter isSources (fst (handleOnlineMessage e cfg clientID msg)) = []
     \<and> snd (handleOnlineMessage e cfg clientID msg) = Return None"
    if "map_of c ''ApplicationType'' = None \<or> map_of c ''SrcName'' = None
        \<or> map_of c ''SourceRef'' = None \<or> map_of c ''SrcType'' = None"
    using run processDispatchers_skips [OF assms(5,6) that, of e ident account clientID]
    by simp
  show ?thesis
  proof (intro conjI impI iffI)
    assume "filter isSources (fst (handleOnlineMessage e cfg clientID msg)) \<noteq> []"
    then show "\<exists>at' sn' sr' st'.
       map_of c ''ApplicationType'' = Some (JString at')
       \<and> map_of c ''SrcName'' = Some (JString sn')
       \<and> map_of c ''SourceRef'' = Some (JString sr')
       \<and> map_of c ''SrcType'' = Some (JString st')"
      by (rule only_if)
  next
    assume "\<exists>at' sn' sr' st'.
       map_of c ''ApplicationType'' = Some (JString at')
       \<and> map_of c ''SrcName'' = Some (JString sn')
       \<and> map_of c ''SourceRef'' = Some (JString sr')
       \<and> map_of c ''SrcType'' = Some (JString st')"
    then obtain at' sn' sr' st' where
      "map_of c ''ApplicationType'' = Some (JString at')"
      "map_of c ''SrcName'' = Some (JString sn')"
      "map_of c ''SourceRef'' = Some (JString sr')"
      "map_of c ''SrcType'' = Some (JString st')"
      by blast
    from called_if [OF this]
    show "filter isSources (fst (handleOnlineMessage e cfg clientID msg)) \<noteq> []"
      by simp
  next
    assume "map_of c ''ApplicationType'' = Some (JString at)
          \<and> map_of c ''SrcName'' = Some (JString sn)
          \<and> map_of c ''SourceRef'' = Some (JString sr)
          \<and> map_of c ''SrcType'' = Some (JString st)"
    then show "filter isSources (fst (handleOnlineMessage e cfg clientID msg))
              = [Call_RegisterWithSources ident account clientID sr sn st at]"
      using called_if by blast
  next
    assume a: "map_of c ''ApplicationType'' = None \<or> map_of c ''SrcName'' = None
          \<or> map_of c ''SourceRef'' = None \<or> map_of c ''SrcType'' = None"
    from skipped [OF a]
    show "filter isSources (fst (handleOnlineMessage e cfg clientID msg)) = []" by simp
    from skipped [OF a]
    show "snd (handleOnlineMessage e cfg clientID msg) = Return None" by simp
  qed
qed

theorem sources_enrollment_witness:
  "MapClientIdToAccountId example_env ''abc'' = Inr (''identity-of-abc'', ''0001'')
   \<and> Content (status_msg (JObject catalog_payload)) = JObject catalog_payload
   \<and> Register example_env (registeredClient ''abc'' ''0001'' catalog_payload) = None
   \<and> RecordConnectedClient example_env ''identity-of-abc''
        (registeredClient ''abc'' ''0001'' catalog_payload) = None
   \<and> hasDispatcher catalog_payload ''catalog''
   \<and> filter isSources
        (fst (handleOnlineMessage example_env example_cfg ''abc''
               (status_msg (JObject catalog_payload))))
       = [Call_RegisterWithSources ''identity-of-abc'' ''0001'' ''abc'' ''R'' ''N'' ''T'' ''A'']
   \<and> Content (status_msg (JObject scenario_S2_payload)) = JObject scenario_S2_payload
   \<and> hasDispatcher scenario_S2_payload ''catalog''
   \<and> map_of scenario_S2_catalog ''SourceRef'' = None
   \<and> filter isSources
        (fst (handleOnlineMessage example_env example_cfg ''abc''
               (status_msg (JObject scenario_S2_payload)))) = []
   \<and> snd (handleOnlineMessage example_env example_cfg ''abc''
            (status_msg (JObject scenario_S2_payload))) = Return None"
  using sources_enrollment
          [where e = example_env and clientID = "''abc''" and ident = "''identity-of-abc''"
             and account = "''0001''" and msg = "status_msg (JObject catalog_payload)"
             and hp = catalog_payload
             and d = "[(''rhc-worker-playbook'', JObject []),
                       (''catalog'',
                        JObject [(''ApplicationType'', JString ''A''), (''SrcName'', JString ''N''),
                                 (''SourceRef'', JString ''R''), (''SrcType'', JString ''T'')])]"
             and c = "[(''ApplicationType'', JString ''A''), (''SrcName'', JString ''N''),
                       (''SourceRef'', JString ''R''), (''SrcType'', JString ''T'')]"
             and at = "''A''" and sn = "''N''" and sr = "''R''" and st = "''T''"
             and cfg = example_cfg]
        sources_enrollment
          [where e = example_env and clientID = "''abc''" and ident = "''identity-of-abc''"
             and account = "''0001''" and msg = "status_msg (JObject scenario_S2_payload)"
             and hp = scenario_S2_payload
             and d = "[(''rhc-worker-playbook'', JObject []),
                       (''catalog'', JObject scenario_S2_catalog)]"
             and c = scenario_S2_catalog and cfg = example_cfg]
  by (simp add: example_env_def status_msg_def catalog_payload_def scenario_S2_payload_def
                scenario_S2_catalog_def hasDispatcher_def)

text \<open>
  The claim as stated fails on the content of scenario S2: its catalog entry has the four
  keys \<open>ApplicationType\<close>, \<open>SrcName\<close>, \<open>SrcRef\<close> and \<open>SrcType\<close>, every collaborator
  succeeds, and the sources recorder is not called.
\<close>

theorem sources_enrollment_counterexample:
  "map_of scenario_S2_payload ''state'' = Some (JString ''online'')
   \<and> map_of scenario_S2_payload ''dispatchers''
       = Some (JObject [(''rhc-worker-playbook'', JObject []),
                        (''catalog'', JObject scenario_S2_catalog)])
   \<and> map_of scenario_S2_catalog ''ApplicationType'' = Some (JString ''A'')
   \<and> map_of scenario_S2_catalog ''SrcName'' = Some (JString ''N'')
   \<and> map_of scenario_S2_catalog ''SrcRef'' = Some (JString ''R'')
   \<and> map_of scenario_S2_catalog ''SrcType'' = Some (JString ''T'')
   \<and> filter isSources
        (fst (handleConnectionStatusMessage example_env example_cfg ''abc''
               (status_msg (JObject scenario_S2_payload)))) = []
   \<and> snd (handleConnectionStatusMessage example_env example_cfg ''abc''
            (status_msg (JObject scenario_S2_payload))) = Return None"
  by (simp add: handleConnectionStatusMessage_def online_defs payload_keys
                example_env_def status_msg_def scenario_S2_payload_def scenario_S2_catalog_def)

subsection \<open>Type assertions\<close>

lemma processDispatchers_panic_iff:
  "snd (processDispatchers e ident account clientID hp) = Panic
     \<longleftrightarrow> \<not> handshakeShape (JObject hp)"
  by (auto simp add: processDispatchers_def handshakeShape_def catalogShape_def payload_keys
                     assert_map_Panic assert_map_Return assert_string_Panic assert_string_Return
           split: option.splits outcome.splits json.splits)

lemma handshakeShape_dispatchers:
  "handshakeShape (JObject hp) \<Longrightarrow> dispatchersAbsentOrObject hp"
  by (auto simp add: handshakeShape_def dispatchersAbsentOrObject_def
           split: option.splits json.splits)

lemma handshakeShape_object: "handshakeShape content \<Longrightarrow> isObject content"
  by (cases content) (simp_all add: handshakeShape_def)

lemma connection_status_content_panic:
  assumes "\<not> isObject (Content msg)"
  shows "handleConnectionStatusMessage e cfg clientID msg =
           ([Log DebugLevel ''handling connection status control message''], Panic)"
  using assms by (cases "Content msg") (simp_all add: handleConnectionStatusMessage_def)

lemma online_no_panic:
  assumes "handshakeShape (Content msg)"
  shows "snd (handleOnlineMessage e cfg clientID msg) \<noteq> Panic"
proof (cases rule: online_cases [where e = e and clientID = clientID and msg = msg])
  case (resolve_failed err)
  then show ?thesis by (simp add: online_resolve_failed)
next
  case (content_panic ident account)
  with handshakeShape_object [OF assms] show ?thesis by (simp add: assert_map_Panic)
next
  case (register_failed ident account hp err)
  then show ?thesis by (simp add: online_register_failed)
next
  case (gate_panic ident account hp)
  with handshakeShape_dispatchers [of hp] assms show ?thesis by (simp add: gate_panic_iff)
next
  case (record_failed ident account hp err)
  then show ?thesis by (simp add: online_record_failed)
next
  case (recorded ident account hp)
  with assms processDispatchers_panic_iff [of e ident account clientID hp] show ?thesis
    by (simp add: online_recorded split: outcome.splits)
next
  case (not_recorded ident account hp)
  with assms processDispatchers_panic_iff [of e ident account clientID hp] show ?thesis
    by (simp add: online_not_recorded split: outcome.splits)
qed

lemma online_shape_panic:
  assumes content: "Content msg = JObject hp"
      and shape: "\<not> handshakeShape (Content msg)"
      and res: "MapClientIdToAccountId e clientID = Inr (ident, account)"
      and reg: "Register e (registeredClient clientID account hp) = None"
      and recd: "RecordConnectedClient e ident (registeredClient clientID account hp) = None"
  shows "snd (handleOnlineMessage e cfg clientID msg) = Panic"
proof (cases "shouldHostBeRegisteredWithInventory hp")
  case Panic
  with content res reg show ?thesis by (simp add: online_gate_panic)
next
  case (Return should)
  have enroll: "snd (processDispatchers e ident account clientID hp) = Panic"
    using shape content by (simp add: processDispatchers_panic_iff)
  show ?thesis
  proof (cases should)
    case True
    with Return content res reg recd enroll show ?thesis by (simp add: online_recorded)
  next
    case False
    with Return content res reg enroll show ?thesis by (simp add: online_not_recorded)
  qed
qed

text \<open>
  Claim C10. The connection-status handlers are total only under a precondition on the
  shape of the decoded content: \<open>Content\<close> is a map; \<open>dispatchers\<close>, when present, is a
  map; its \<open>catalog\<close> entry, when present, is a map; and the four catalog fields, when
  all present, are strings (\<open>handshakeShape\<close>). Under it
  \<open>handleConnectionStatusMessage\<close> never panics. Without it there are panics: a content
  that is not a map (a JSON string, \<open>null\<close>) makes \<open>handleConnectionStatusMessage\<close> panic
  at once, whatever the collaborators do; an online content that is a map but breaks the
  shape further down panics once the resolver, \<open>Register\<close> and the recorder have let the
  handshake through; and a panic of the handler is a panic of \<open>HandleControlMessage\<close>,
  which does not log and drop the frame.
\<close>

theorem type_assertions_panic:
  "(\<not> isObject (Content msg) \<longrightarrow>
      snd (handleConnectionStatusMessage e cfg clientID msg) = Panic)
   \<and> (handshakeShape (Content msg) \<longrightarrow>
      snd (handleConnectionStatusMessage e cfg clientID msg) \<noteq> Panic)
   \<and> (Content msg = JObject hp \<longrightarrow>
      map_of hp ''state'' = Some (JString ''online'') \<longrightarrow>
      \<not> handshakeShape (Content msg) \<longrightarrow>
      MapClientIdToAccountId e clientID = Inr (ident, account) \<longrightarrow>
      Register e (registeredClient clientID account hp) = None \<longrightarrow>
      RecordConnectedClient e ident (registeredClient clientID account hp) = None \<longrightarrow>
        snd (handleConnectionStatusMessage e cfg clientID msg) = Panic)
   \<and> (VerifyIncomingTopic e topic = Inr (tt, clientID) \<longrightarrow>
      payload \<noteq> [] \<longrightarrow>
      json_Unmarshal e payload = Inr msg \<longrightarrow>
      MessageType msg = ''connection-status'' \<longrightarrow>
      snd (handleConnectionStatusMessage e cfg clientID msg) = Panic \<longrightarrow>
        snd (HandleControlMessage e cfg topic payload) = Panic)"
proof (intro conjI impI)
  assume "\<not> isObject (Content msg)"
  then show "snd (handleConnectionStatusMessage e cfg clientID msg) = Panic"
    by (simp add: connection_status_content_panic)
next
  assume shape: "handshakeShape (Content msg)"
  then obtain hp' where content: "Content msg = JObject hp'"
    using handshakeShape_object [OF shape] by (cases "Content msg") simp_all
  show "snd (handleConnectionStatusMessage e cfg clientID msg) \<noteq> Panic"
  proof (cases "map_of hp' ''state'' = Some (JString ''online'')")
    case True
    with content online_no_panic [OF shape] show ?thesis
      by (simp add: connection_status_online)
  next
    case False
    with content show ?thesis
      by (cases "map_of hp' ''state''")
         (simp_all add: handleConnectionStatusMessage_def handleOfflineMessage_def Let_def)
  qed
next
  assume "Content msg = JObject hp" "map_of hp ''state'' = Some (JString ''online'')"
         "\<not> handshakeShape (Content msg)"
         "MapClientIdToAccountId e clientID = Inr (ident, account)"
         "Register e (registeredClient clientID account hp) = None"
         "RecordConnectedClient e ident (registeredClient clientID account hp) = None"
  then show "snd (handleConnectionStatusMessage e cfg clientID msg) = Panic"
    by (simp add: connection_status_online online_shape_panic)
next
  assume "VerifyIncomingTopic e topic = Inr (tt, clientID)" "payload \<noteq> []"
         "json_Unmarshal e payload = Inr msg" "MessageType msg = ''connection-status''"
         "snd (handleConnectionStatusMessage e cfg clientID msg) = Panic"
  then show "snd (HandleControlMessage e cfg topic payload) = Panic"
    by (simp add: control_frame_dispatch)
qed

theorem type_assertions_panic_witness:
  "\<not> isObject (Content malformed_msg)
   \<and> snd (handleConnectionStatusMessage example_env example_cfg ''abc'' malformed_msg) = Panic
   \<and> VerifyIncomingTopic (decoding_env malformed_msg) ''redhat/insights/abc/control/in''
       = Inr (ControlTopicType, ''abc'')
   \<and> json_Unmarshal (decoding_env malformed_msg) online_frame = Inr malformed_msg
   \<and> snd (HandleControlMessage (decoding_env malformed_msg) example_cfg
            ''redhat/insights/abc/control/in'' online_frame) = Panic
   \<and> \<not> handshakeShape (JObject bad_dispatchers_payload)
   \<and> snd (handleConnectionStatusMessage example_env example_cfg ''abc''
            (status_msg (JObject bad_dispatchers_payload))) = Panic
   \<and> handshakeShape (Content online_msg)
   \<and> snd (handleConnectionStatusMessage example_env example_cfg ''abc'' online_msg) \<noteq> Panic"
proof -
  have string_content: "\<not> isObject (Content malformed_msg)"
    by (simp add: malformed_msg_def status_msg_def)
  have frame:
    "VerifyIncomingTopic (decoding_env malformed_msg) ''redhat/insights/abc/control/in''
       = Inr (ControlTopicType, ''abc'')"
    "online_frame \<noteq> []"
    "json_Unmarshal (decoding_env malformed_msg) online_frame = Inr malformed_msg"
    "MessageType malformed_msg = ''connection-status''"
    by (simp_all add: decoding_env_def example_env_def malformed_msg_def status_msg_def
                      online_frame_def)
  have bad: "\<not> handshakeShape (Content (status_msg (JObject bad_dispatchers_payload)))"
            "Content (status_msg (JObject bad_dispatchers_payload)) = JObject bad_dispatchers_payload"
            "map_of bad_dispatchers_payload ''state'' = Some (JString ''online'')"
    by (simp_all add: handshakeShape_def status_msg_def bad_dispatchers_payload_def)
  have collaborators:
    "MapClientIdToAccountId example_env ''abc'' = Inr (''identity-of-abc'', ''0001'')"
    "Register example_env (registeredClient ''abc'' ''0001'' bad_dispatchers_payload) = None"
    "RecordConnectedClient example_env ''identity-of-abc''
       (registeredClient ''abc'' ''0001'' bad_dispatchers_payload) = None"
    by (simp_all add: example_env_def)
  have good: "handshakeShape (Content online_msg)"
    by (simp add: handshakeShape_def online_msg_def status_msg_def)
  note a = type_assertions_panic
             [where msg = malformed_msg and e = example_env and cfg = example_cfg
                and clientID = "''abc''"]
  note b = type_assertions_panic
             [where msg = malformed_msg and e = "decoding_env malformed_msg"
                and cfg = example_cfg and clientID = "''abc''"
                and topic = "''redhat/insights/abc/control/in''" and tt = ControlTopicType
                and payload = online_frame]
  note c = type_assertions_panic
             [where msg = "status_msg (JObject bad_dispatchers_payload)" and e = example_env
                and cfg = example_cfg and clientID = "''abc''" and hp = bad_dispatchers_payload
                and ident = "''identity-of-abc''" and account = "''0001''"]
  note d = type_assertions_panic
             [where msg = online_msg and e = example_env and cfg = example_cfg
                and clientID = "''abc''"]
  from a string_content
  have 1: "snd (handleConnectionStatusMessage example_env example_cfg ''abc'' malformed_msg)
             = Panic"
    by blast
  from b string_content frame
  have 2: "snd (HandleControlMessage (decoding_env malformed_msg) example_cfg
                  ''redhat/insights/abc/control/in'' online_frame) = Panic"
    by blast
  from c bad collaborators
  have 3: "snd (handleConnectionStatusMessage example_env example_cfg ''abc''
                  (status_msg (JObject bad_dispatchers_payload))) = Panic"
    by blast
  from d good
  have 4: "snd (handleConnectionStatusMessage example_env example_cfg ''abc'' online_msg)
             \<noteq> Panic"
    by blast
  from string_content frame bad 1 2 3 4 good show ?thesis
    by (simp add: status_msg_def)
qed

subsection \<open>A connection-status message without a content\<close>

lemma connection_status_non_object:
  assumes "\<not> isObject (Content msg)"
  shows "snd (handleConnectionStatusMessage e cfg clientID msg) = Panic
         \<and> filter isPublish (fst (handleConnectionStatusMessage e cfg clientID msg)) = []
         \<and> filter isCollaboratorCall (fst (handleConnectionStatusMessage e cfg clientID msg)) = []"
  using assms by (simp add: connection_status_content_panic)

text \<open>
  Claim C9. For every connection-status message whose \<open>state\<close> is present but is neither
  \<open>online\<close> nor \<open>offline\<close>, and likewise when the \<open>state\<close> key is missing, the message
  is to be dropped with an error result, with no reconnect command published and no
  registrar operation. The handler does so when the content is a map
  (\<open>invalid_state_dropped\<close>). On the frame below the \<open>state\<close> key is missing because the
  frame has no content at all: the type assertion on \<open>Content\<close> comes before the lookup
  of \<open>state\<close>, so the handler panics where the branch for a missing state would have
  returned the error, and \<open>HandleControlMessage\<close> does not recover. Nothing is published
  and no collaborator is called in this run either.
\<close>

theorem missing_content_panics:
  "VerifyIncomingTopic (decoding_env null_content_msg) ''redhat/insights/abc/control/in''
     = Inr (ControlTopicType, ''abc'')
   \<and> null_content_frame \<noteq> []
   \<and> json_Unmarshal (decoding_env null_content_msg) null_content_frame = Inr null_content_msg
   \<and> MessageType null_content_msg = ''connection-status''
   \<and> Content null_content_msg = JNull
   \<and> snd (handleConnectionStatusMessage (decoding_env null_content_msg) example_cfg ''abc''
            null_content_msg) = Panic
   \<and> snd (HandleControlMessage (decoding_env null_content_msg) example_cfg
            ''redhat/insights/abc/control/in'' null_content_frame) = Panic
   \<and> filter isPublish
        (fst (HandleControlMessage (decoding_env null_content_msg) example_cfg
               ''redhat/insights/abc/control/in'' null_content_frame)) = []
   \<and> filter isCollaboratorCall
        (fst (HandleControlMessage (decoding_env null_content_msg) example_cfg
               ''redhat/insights/abc/control/in'' null_content_frame)) = []"
proof -
  have frame:
    "VerifyIncomingTopic (decoding_env null_content_msg) ''redhat/insights/abc/control/in''
       = Inr (ControlTopicType, ''abc'')"
    "null_content_frame \<noteq> []"
    "json_Unmarshal (decoding_env null_content_msg) null_content_frame = Inr null_content_msg"
    "MessageType null_content_msg = ''connection-status''"
    by (simp_all add: decoding_env_def example_env_def null_content_msg_def status_msg_def
                      null_content_frame_def)
  have content: "Content null_content_msg = JNull"
    by (simp add: null_content_msg_def status_msg_def)
  then have "\<not> isObject (Content null_content_msg)" by simp
  from connection_status_non_object [OF this] frame content show ?thesis
    by (simp add: control_frame_dispatch [OF frame])
qed

subsection \<open>Forwarding to Kafka\<close>

lemma control_frame_forwarded:
  assumes "VerifyIncomingTopic e (message_Topic message) = Inr (tt, clientID)"
      and "message_Payload message \<noteq> []"
  shows "ControlMessageHandler e message =
           ([], [writeToKafka e message (decimal (unat (message_MessageID message)))])"
  using assms by (simp add: ControlMessageHandler_def)

lemma writeToKafka_effects:
  "writeToKafka e message (decimal (unat (message_MessageID message))) =
     [Call_WriteMessages (kafkaRecord message),
      Log DebugLevel ''MQTT message written to kafka''] @
     (case WriteMessages e (kafkaRecord message) of
        None \<Rightarrow> []
      | Some err \<Rightarrow>
          Log ErrorLevel ''Error writing MQTT message to kafka'' #
          (if errors_Is_Canceled err then []
           else [Log FatalLevel ''Failed writing to kafka'', Exit 1]))"
  by (simp add: writeToKafka_def kafkaRecord_def Let_def)

text \<open>
  Claim C3, as amended. The data message handler writes no Kafka record, whether the
  payload of the data frame is empty or not, and the default handler routes a data-topic
  frame to it. The Kafka record is written by \<open>ControlMessageHandler\<close>: for every frame
  handed to it whose topic verifies and whose payload is not empty, it issues exactly one
  write of one record, whose value is the raw payload and whose headers are the MQTT topic
  under \<open>topic\<close> and the message id in decimal under \<open>mqtt_message_id\<close>; for an empty
  payload it writes nothing.
\<close>

theorem kafka_forwarding:
  "filter isWrite (allEffects (DataMessageHandler message)) = []
   \<and> (VerifyIncomingTopic e (message_Topic message) = Inr (DataTopicType, clientID) \<longrightarrow>
        filter isWrite
          (allEffects (DefaultMessageHandler e (ControlMessageHandler e) DataMessageHandler
                         message)) = [])
   \<and> (VerifyIncomingTopic e (message_Topic message) = Inr (tt, clientID) \<longrightarrow>
      message_Payload message \<noteq> [] \<longrightarrow>
        filter isWrite (allEffects (ControlMessageHandler e message))
          = [Call_WriteMessages
               \<lparr>Headers =
                  [\<lparr>header_Key = ''topic'', header_Value = message_Topic message\<rparr>,
                   \<lparr>header_Key = ''mqtt_message_id'',
                    header_Value = decimal (unat (message_MessageID message))\<rparr>],
                Value = message_Payload message\<rparr>])
   \<and> (message_Payload message = [] \<longrightarrow>
        filter isWrite (allEffects (ControlMessageHandler e message)) = [])"
proof (intro conjI impI)
  show "filter isWrite (allEffects (DataMessageHandler message)) = []"
    by (simp add: DataMessageHandler_def allEffects_def)
next
  assume "VerifyIncomingTopic e (message_Topic message) = Inr (DataTopicType, clientID)"
  then show "filter isWrite
               (allEffects (DefaultMessageHandler e (ControlMessageHandler e) DataMessageHandler
                              message)) = []"
    by (simp add: DefaultMessageHandler_def DataMessageHandler_def allEffects_def)
next
  assume "VerifyIncomingTopic e (message_Topic message) = Inr (tt, clientID)"
         "message_Payload message \<noteq> []"
  then show "filter isWrite (allEffects (ControlMessageHandler e message))
          = [Call_WriteMessages
               \<lparr>Headers =
                  [\<lparr>header_Key = ''topic'', header_Value = message_Topic message\<rparr>,
                   \<lparr>header_Key = ''mqtt_message_id'',
                    header_Value = decimal (unat (message_MessageID message))\<rparr>],
                Value = message_Payload message\<rparr>]"
    by (simp add: control_frame_forwarded writeToKafka_effects allEffects_def kafkaRecord_def
             split: option.splits)
next
  assume "message_Payload message = []"
  then show "filter isWrite (allEffects (ControlMessageHandler e message)) = []"
    by (simp add: ControlMessageHandler_def allEffects_def split: sum.splits)
qed

theorem kafka_forwarding_witness:
  "VerifyIncomingTopic example_env (message_Topic data_frame) = Inr (DataTopicType, ''abc'')
   \<and> filter isWrite
        (allEffects (DefaultMessageHandler example_env (ControlMessageHandler example_env)
                       DataMessageHandler data_frame)) = []
   \<and> VerifyIncomingTopic example_env (message_Topic control_frame)
       = Inr (ControlTopicType, ''abc'')
   \<and> message_Payload control_frame \<noteq> []
   \<and> filter isWrite (allEffects (ControlMessageHandler example_env control_frame))
       = [Call_WriteMessages
            \<lparr>Headers =
               [\<lparr>header_Key = ''topic'', header_Value = ''redhat/insights/abc/control/in''\<rparr>,
                \<lparr>header_Key = ''mqtt_message_id'', header_Value = ''7''\<rparr>],
             Value = online_frame\<rparr>]
   \<and> message_Payload (control_frame\<lparr>message_Payload := []\<rparr>) = []
   \<and> filter isWrite
        (allEffects (ControlMessageHandler example_env
                       (control_frame\<lparr>message_Payload := []\<rparr>))) = []"
proof -
  have data: "VerifyIncomingTopic example_env (message_Topic data_frame)
                = Inr (DataTopicType, ''abc'')"
    by (simp add: example_env_def data_frame_def)
  have control: "VerifyIncomingTopic example_env (message_Topic control_frame)
                   = Inr (ControlTopicType, ''abc'')"
                "message_Payload control_frame \<noteq> []"
    by (simp_all add: example_env_def control_frame_def online_frame_def)
  have empty: "message_Payload (control_frame\<lparr>message_Payload := []\<rparr>) = []"
    by simp
  have fields: "message_Topic control_frame = ''redhat/insights/abc/control/in''"
               "decimal (unat (message_MessageID control_frame)) = ''7''"
               "message_Payload control_frame = online_frame"
    by (simp_all add: control_frame_def decimal.simps)
  from kafka_forwarding
         [where message = data_frame and e = example_env and clientID = "''abc''"] data
  have 1: "filter isWrite
             (allEffects (DefaultMessageHandler example_env (ControlMessageHandler example_env)
                            DataMessageHandler data_frame)) = []"
    by blast
  from kafka_forwarding
         [where message = control_frame and e = example_env and clientID = "''abc''"
            and tt = ControlTopicType] control
  have 2: "filter isWrite (allEffects (ControlMessageHandler example_env control_frame))
             = [Call_WriteMessages
                  \<lparr>Headers =
                     [\<lparr>header_Key = ''topic'', header_Value = message_Topic control_frame\<rparr>,
                      \<lparr>header_Key = ''mqtt_message_id'',
                       header_Value = decimal (unat (message_MessageID control_frame))\<rparr>],
                   Value = message_Payload control_frame\<rparr>]"
    by blast
  from kafka_forwarding
         [where message = "control_frame\<lparr>message_Payload := []\<rparr>" and e = example_env]
       empty
  have 3: "filter isWrite
             (allEffects (ControlMessageHandler example_env
                            (control_frame\<lparr>message_Payload := []\<rparr>))) = []"
    by blast
  from data control empty 1 2 3 show ?thesis
    by (simp only: fields simp_thms)
qed

text \<open>
  The claim as stated fails on the data frame of scenario S6: its payload is not empty and
  no Kafka record is written, neither by the data message handler nor through the
  default handler.
\<close>

theorem kafka_forwarding_counterexample:
  "message_Payload data_frame \<noteq> []
   \<and> VerifyIncomingTopic example_env (message_Topic data_frame) = Inr (DataTopicType, ''abc'')
   \<and> filter isWrite (allEffects (DataMessageHandler data_frame)) = []
   \<and> filter isWrite
        (allEffects (DefaultMessageHandler example_env (ControlMessageHandler example_env)
                       DataMessageHandler data_frame)) = []"
  by (simp add: DataMessageHandler_def DefaultMessageHandler_def allEffects_def
                example_env_def data_frame_def)

text \<open>
  Claim C6, as amended. For every Kafka write that fails, the goroutine of the handler
  first logs the failure at error level, also when the error is a cancellation. It then
  escalates to a fatal stop (the fatal log line and the exit of the process, which ends
  the consumption of MQTT frames) if and only if the error is not a cancellation; on a
  cancellation it returns without escalating.
\<close>

theorem kafka_write_failure:
  assumes "VerifyIncomingTopic e (message_Topic message) = Inr (tt, clientID)"
      and "message_Payload message \<noteq> []"
      and "WriteMessages e (kafkaRecord message) = Some err"
  shows "allEffects (ControlMessageHandler e message) =
           [Call_WriteMessages (kafkaRecord message),
            Log DebugLevel ''MQTT message written to kafka'',
            Log ErrorLevel ''Error writing MQTT message to kafka''] @
           (if errors_Is_Canceled err then []
            else [Log FatalLevel ''Failed writing to kafka'', Exit 1])
         \<and> (Exit 1 \<in> set (allEffects (ControlMessageHandler e message))
              \<longleftrightarrow> \<not> errors_Is_Canceled err)
         \<and> filter isErrorLog (allEffects (ControlMessageHandler e message))
             = [Log ErrorLevel ''Error writing MQTT message to kafka'']"
  using assms
  by (simp add: control_frame_forwarded writeToKafka_effects allEffects_def)

theorem kafka_write_failure_witness:
  "VerifyIncomingTopic kafka_down_env (message_Topic control_frame)
     = Inr (ControlTopicType, ''abc'')
   \<and> message_Payload control_frame \<noteq> []
   \<and> WriteMessages kafka_down_env (kafkaRecord control_frame)
       = Some (ErrorString ''broker unreachable'')
   \<and> \<not> errors_Is_Canceled (ErrorString ''broker unreachable'')
   \<and> Exit 1 \<in> set (allEffects (ControlMessageHandler kafka_down_env control_frame))
   \<and> WriteMessages kafka_canceled_env (kafkaRecord control_frame)
       = Some (Wrapped ''write'' ContextCanceled)
   \<and> errors_Is_Canceled (Wrapped ''write'' ContextCanceled)
   \<and> Exit 1 \<notin> set (allEffects (ControlMessageHandler kafka_canceled_env control_frame))"
proof -
  have down:
    "VerifyIncomingTopic kafka_down_env (message_Topic control_frame)
       = Inr (ControlTopicType, ''abc'')"
    "message_Payload control_frame \<noteq> []"
    "WriteMessages kafka_down_env (kafkaRecord control_frame)
       = Some (ErrorString ''broker unreachable'')"
    by (simp_all add: kafka_down_env_def example_env_def control_frame_def online_frame_def)
  have canceled:
    "VerifyIncomingTopic kafka_canceled_env (message_Topic control_frame)
       = Inr (ControlTopicType, ''abc'')"
    "WriteMessages kafka_canceled_env (kafkaRecord control_frame)
       = Some (Wrapped ''write'' ContextCanceled)"
    by (simp_all add: kafka_canceled_env_def example_env_def control_frame_def)
  have 1: "Exit 1 \<in> set (allEffects (ControlMessageHandler kafka_down_env control_frame))"
    using kafka_write_failure [OF down] by simp
  have 2: "Exit 1 \<notin> set (allEffects (ControlMessageHandler kafka_canceled_env control_frame))"
    using kafka_write_failure [OF canceled(1) down(2) canceled(2)] by simp
  from down canceled 1 2 show ?thesis by simp
qed

text \<open>
  The claim as stated fails on a cancelled write: the error is a cancellation and the
  goroutine has logged at error level before it returns.
\<close>

theorem kafka_write_failure_counterexample:
  "WriteMessages kafka_canceled_env (kafkaRecord control_frame)
     = Some (Wrapped ''write'' ContextCanceled)
   \<and> errors_Is_Canceled (Wrapped ''write'' ContextCanceled)
   \<and> filter isErrorLog (allEffects (ControlMessageHandler kafka_canceled_env control_frame))
       = [Log ErrorLevel ''Error writing MQTT message to kafka'']"
  by (simp add: ControlMessageHandler_def writeToKafka_def kafkaRecord_def allEffects_def
                Let_def kafka_canceled_env_def example_env_def control_frame_def
                online_frame_def)

end
